theory Spec2Isabelle
  imports Main
begin

section \<open>The greeting module \<open>hello.js\<close>\<close>

text \<open>
  The values a caller can pass to the greeting function. A call without an argument binds
  the parameter to \<open>undefined\<close>. The call sites of the tutorial pass nothing, a string
  literal, or the \<open>value\<close> of a text input (always a string); \<open>null\<close> and booleans are
  kept to show that the fallback tests for \<open>undefined\<close> only. Numbers and objects are left
  out of the model (their string conversion is floating-point and prototype dependent).
\<close>

datatype jsval = JUndefined | JNull | JBool bool | JStr string

text \<open>The string conversion that \<open>+\<close> applies to a primitive next to a string operand.\<close>

fun to_string :: "jsval \<Rightarrow> string" where
  "to_string JUndefined = ''undefined''"
| "to_string JNull = ''null''"
| "to_string (JBool b) = (if b then ''true'' else ''false'')"
| "to_string (JStr s) = s"

text \<open>
  Part 1, \<open>hello.js\<close>:
  \<^verbatim>\<open>
  module.exports = function(name) {
    if (name === undefined) {
      name = 'World';
    }
    return 'Hello, ' + name + '!';
  };
  \<close>
\<close>

definition hello :: "jsval \<Rightarrow> string" where
  "hello name =
     (let name = (if name = JUndefined then JStr ''World'' else name)
      in ''Hello, '' @ to_string name @ ''!'')"

text \<open>
  Part 2, \<open>hello.js\<close> in its last revision:
  \<^verbatim>\<open>
  import helloTpl from './hello.hbs';
  export default function(name = 'World') {
    return helloTpl({ name: name });
  };
  \<close>
  The compiled Handlebars template is produced by the bundler's loader; it is a parameter
  \<open>helloTpl\<close>, applied to the \<open>name\<close> field of the object it receives. A default
  parameter is used exactly when the argument is \<open>undefined\<close>.
\<close>

definition hello_default :: "(jsval \<Rightarrow> string) \<Rightarrow> jsval \<Rightarrow> string" where
  "hello_default helloTpl name =
     (let name = (if name = JUndefined then JStr ''World'' else name)
      in helloTpl name)"

text \<open>
  The template \<open>hello.hbs\<close> that the second revision imports, as part 2 shows it:
  \<^verbatim>\<open>
  <div class="Hello">
    <h3 class="Hello-title">Hello, {{name}}!</h3>
    <p>The best and most beautiful things in the world cannot be seen or even
       touched - they must be felt with the heart.</p>
  </div>
  \<close>
  (the paragraph is one line in the file). A template is a sequence of literal text and
  \<open>{{key}}\<close> expressions. Compiling and rendering is done by the Handlebars library,
  which is not part of the repository; it is modelled as Handlebars documents it: text
  is copied, and an expression is replaced by the value found under its key, HTML-escaped
  (\<open>escapeExpression\<close>: nothing for \<open>undefined\<close> and \<open>null\<close>, otherwise the string
  conversion with the characters \<open>& < > " ' ` =\<close> replaced by entities).
\<close>

datatype part = Text string | Mustache string

definition escapeChar :: "char \<Rightarrow> string" where
  "escapeChar c =
     (if c = CHR ''&'' then ''&amp;''
      else if c = CHR ''<'' then ''&lt;''
      else if c = CHR ''>'' then ''&gt;''
      else if c = CHR 0x22 then ''&quot;''
      else if c = CHR 0x27 then ''&#x27;''
      else if c = CHR ''`'' then ''&#x60;''
      else if c = CHR ''='' then ''&#x3D;''
      else [c])"

fun escapeExpression :: "jsval \<Rightarrow> string" where
  "escapeExpression JUndefined = []"
| "escapeExpression JNull = []"
| "escapeExpression (JBool b) = to_string (JBool b)"
| "escapeExpression (JStr s) = concat (map escapeChar s)"

fun render_part :: "(string \<Rightarrow> jsval) \<Rightarrow> part \<Rightarrow> string" where
  "render_part context (Text t) = t"
| "render_part context (Mustache k) = escapeExpression (context k)"

definition render :: "part list \<Rightarrow> (string \<Rightarrow> jsval) \<Rightarrow> string" where
  "render template context = concat (map (render_part context) template)"

definition quoted :: "string \<Rightarrow> string" where
  "quoted s = CHR 0x22 # s @ [CHR 0x22]"

definition newline :: string where
  "newline = [CHR 0x0A]"

definition hbs_open :: string where
  "hbs_open =
     ''<div class='' @ quoted ''Hello'' @ ''>'' @ newline
     @ ''  <h3 class='' @ quoted ''Hello-title'' @ ''>''"

definition hbs_close :: string where
  "hbs_close =
     ''</h3>'' @ newline
     @ ''  <p>The best and most beautiful things in the world cannot be seen or even ''
     @ ''touched - they must be felt with the heart.</p>'' @ newline
     @ ''</div>''"

definition hello_hbs_template :: "part list" where
  "hello_hbs_template = [Text (hbs_open @ ''Hello, ''), Mustache ''name'', Text (''!'' @ hbs_close)]"

text \<open>
  The function that \<open>import helloTpl from './hello.hbs'\<close> binds, applied to the object
  \<open>{ name: name }\<close>: every other key of that object is \<open>undefined\<close>.
\<close>

definition hello_hbs :: "jsval \<Rightarrow> string" where
  "hello_hbs name = render hello_hbs_template (\<lambda>k. if k = ''name'' then name else JUndefined)"

section \<open>The configuration file \<open>webpack.config.js\<close>\<close>

subsection \<open>\<open>path.join\<close>\<close>

text \<open>
  The configuration calls \<open>path.join\<close> of the Node standard library, which is not part
  of the repository. It is modelled here as Node documents and implements it on a POSIX
  system: the non-empty arguments are glued with \<open>/\<close> and the result is normalised
  (empty and \<open>.\<close> segments dropped, \<open>..\<close> resolved, one trailing separator kept).
  \<open>normalizeString\<close> works on the list of segments instead of scanning characters.
\<close>

fun split_slash :: "string \<Rightarrow> string list" where
  "split_slash [] = [[]]"
| "split_slash (c # cs) =
     (if c = CHR ''/'' then [] # split_slash cs
      else (case split_slash cs of [] \<Rightarrow> [[c]] | s # ss \<Rightarrow> (c # s) # ss))"

fun join_slash :: "string list \<Rightarrow> string" where
  "join_slash [] = []"
| "join_slash [s] = s"
| "join_slash (s # ss) = s @ ''/'' @ join_slash ss"

fun normalizeString :: "bool \<Rightarrow> string list \<Rightarrow> string list \<Rightarrow> string list" where
  "normalizeString allowAboveRoot res [] = res"
| "normalizeString allowAboveRoot res (s # ss) =
     (if s = [] \<or> s = ''.'' then normalizeString allowAboveRoot res ss
      else if s = ''..'' then
        (if res \<noteq> [] \<and> last res \<noteq> ''..''
           then normalizeString allowAboveRoot (butlast res) ss
         else if allowAboveRoot
           then normalizeString allowAboveRoot (res @ [''..'']) ss
         else normalizeString allowAboveRoot res ss)
      else normalizeString allowAboveRoot (res @ [s]) ss)"

definition isAbsolute :: "string \<Rightarrow> bool" where
  "isAbsolute path = (case path of [] \<Rightarrow> False | c # _ \<Rightarrow> c = CHR ''/'')"

definition normalize :: "string \<Rightarrow> string" where
  "normalize path =
     (if path = [] then ''.''
      else
        let trailingSeparator = (last path = CHR ''/'');
            p = join_slash (normalizeString (\<not> isAbsolute path) [] (split_slash path));
            p = (if p = [] \<and> \<not> isAbsolute path then ''.'' else p);
            p = (if p \<noteq> [] \<and> trailingSeparator then p @ ''/'' else p)
        in if isAbsolute path then ''/'' @ p else p)"

definition path_join :: "string list \<Rightarrow> string" where
  "path_join args =
     (let parts = filter (\<lambda>arg. arg \<noteq> []) args
      in if parts = [] then ''.'' else normalize (join_slash parts))"

text \<open>
  A directory name as Node hands it to a module in \<open>__dirname\<close>: absolute and already
  normalised, that is \<open>/\<close> followed by proper segments separated by single slashes.
\<close>

definition proper_segment :: "string \<Rightarrow> bool" where
  "proper_segment s = (s \<noteq> [] \<and> s \<noteq> ''.'' \<and> s \<noteq> ''..'' \<and> CHR ''/'' \<notin> set s)"

definition dirname_of :: "string list \<Rightarrow> string" where
  "dirname_of segs = ''/'' @ join_slash segs"

subsection \<open>Object literals\<close>

text \<open>
  The configuration is one object literal. Its values are strings, regular-expression
  literals (kept as their source text between the slashes), arrays and objects; an
  object is the list of its key-value pairs in the order written.
\<close>

datatype literal =
    LStr string
  | LRegExp string
  | LArr "literal list"
  | LObj "(string \<times> literal) list"

text \<open>
  Property access \<open>o.k\<close>: the value of the last pair with that key, and nothing
  (\<open>undefined\<close>) for a missing key or a value that is no object.
\<close>

fun obj_get :: "string \<Rightarrow> literal \<Rightarrow> literal option" where
  "obj_get k (LObj kvs) = map_of (rev kvs) k"
| "obj_get k _ = None"

fun elements :: "literal option \<Rightarrow> literal list" where
  "elements (Some (LArr xs)) = xs"
| "elements _ = []"

definition backslash :: char where
  "backslash = CHR 0x5C"

text \<open>
  Part 2, \<open>webpack.config.js\<close>, the revision with \<open>module.rules\<close>. \<open>__dirname\<close>, the
  directory of the configuration file, is the parameter.
  \<^verbatim>\<open>
  module.exports = {
    entry: path.join(__dirname, 'src/index.js'),
    output: { path: path.join(__dirname, 'dist'), filename: 'index.bundle.js' },
    module: {
      rules: [
        { test: /\.html$/, use: [{ loader: 'html-loader' }] },
        { test: /\.hbs$/,  use: [{ loader: 'handlebars-loader' }] },
        { test: /\.css$/,  use: [{ loader: 'style-loader' }, { loader: 'css-loader' }] },
        { test: /\.js$/, exclude: /(node_modules)/,
          use: [{ loader: 'babel-loader', query: { presets: ['es2015'] } }] }]
    }
  };
  \<close>
\<close>

definition config_rules :: "string \<Rightarrow> literal" where
  "config_rules dirname =
     LObj [
       (''entry'', LStr (path_join [dirname, ''src/index.js''])),
       (''output'', LObj [
          (''path'', LStr (path_join [dirname, ''dist''])),
          (''filename'', LStr ''index.bundle.js'')]),
       (''module'', LObj [
          (''rules'', LArr [
             LObj [
               (''test'', LRegExp (backslash # ''.html$'')),
               (''use'', LArr [LObj [(''loader'', LStr ''html-loader'')]])],
             LObj [
               (''test'', LRegExp (backslash # ''.hbs$'')),
               (''use'', LArr [LObj [(''loader'', LStr ''handlebars-loader'')]])],
             LObj [
               (''test'', LRegExp (backslash # ''.css$'')),
               (''use'', LArr [
                  LObj [(''loader'', LStr ''style-loader'')],
                  LObj [(''loader'', LStr ''css-loader'')]])],
             LObj [
               (''test'', LRegExp (backslash # ''.js$'')),
               (''exclude'', LRegExp ''(node_modules)''),
               (''use'', LArr [
                  LObj [
                    (''loader'', LStr ''babel-loader''),
                    (''query'', LObj [(''presets'', LArr [LStr ''es2015''])])]])]])])]"

text \<open>
  The older revision of the same file, with \<open>module.loaders\<close>:
  \<^verbatim>\<open>
  module.exports = {
    entry: path.join(__dirname, 'src/index.js'),
    output: { path: path.join(__dirname, 'dist'), filename: 'index.bundle.js' },
    module: {
      loaders: [
        { test: /\.html$/, loader: 'html' },
        { test: /\.hbs$/,  loader: 'handlebars' },
        { test: /\.css$/,  loaders: ['style', 'css'] },
        { test: /\.js$/, exclude: /(node_modules)/, loader: 'babel-loader',
          query: { presets: ['es2015'] } }]
    }
  };
  \<close>
\<close>

definition config_loaders :: "string \<Rightarrow> literal" where
  "config_loaders dirname =
     LObj [
       (''entry'', LStr (path_join [dirname, ''src/index.js''])),
       (''output'', LObj [
          (''path'', LStr (path_join [dirname, ''dist''])),
          (''filename'', LStr ''index.bundle.js'')]),
       (''module'', LObj [
          (''loaders'', LArr [
             LObj [
               (''test'', LRegExp (backslash # ''.html$'')),
               (''loader'', LStr ''html'')],
             LObj [
               (''test'', LRegExp (backslash # ''.hbs$'')),
               (''loader'', LStr ''handlebars'')],
             LObj [
               (''test'', LRegExp (backslash # ''.css$'')),
               (''loaders'', LArr [LStr ''style'', LStr ''css''])],
             LObj [
               (''test'', LRegExp (backslash # ''.js$'')),
               (''exclude'', LRegExp ''(node_modules)''),
               (''loader'', LStr ''babel-loader''),
               (''query'', LObj [(''presets'', LArr [LStr ''es2015''])])]])])]"

text \<open>The two rule lists, \<open>module.rules\<close> and \<open>module.loaders\<close>.\<close>

definition module_rules :: "literal \<Rightarrow> literal list" where
  "module_rules config =
     (case obj_get ''module'' config of
        None \<Rightarrow> []
      | Some m \<Rightarrow> elements (obj_get ''rules'' m))"

definition module_loaders :: "literal \<Rightarrow> literal list" where
  "module_loaders config =
     (case obj_get ''module'' config of
        None \<Rightarrow> []
      | Some m \<Rightarrow> elements (obj_get ''loaders'' m))"

subsection \<open>The shape of a rule\<close>

text \<open>
  What the interface description says of a rule record, as predicates on an element of
  the rule list: it has a regular expression under \<open>test\<close>; in the \<open>rules\<close> schema it
  has a non-empty chain under \<open>use\<close>, each entry naming its \<open>loader\<close>; in the
  \<open>loaders\<close> schema it has a loader name under \<open>loader\<close> or a non-empty chain of
  names under \<open>loaders\<close>.
\<close>

definition carries :: "string \<Rightarrow> literal \<Rightarrow> bool" where
  "carries k r = (obj_get k r \<noteq> None)"

definition has_test :: "literal \<Rightarrow> bool" where
  "has_test r = (case obj_get ''test'' r of Some (LRegExp _) \<Rightarrow> True | _ \<Rightarrow> False)"

definition is_name :: "literal \<Rightarrow> bool" where
  "is_name v = (case v of LStr _ \<Rightarrow> True | _ \<Rightarrow> False)"

definition names_loader :: "literal \<Rightarrow> bool" where
  "names_loader u = (case obj_get ''loader'' u of Some v \<Rightarrow> is_name v | None \<Rightarrow> False)"

definition use_entries :: "literal \<Rightarrow> literal list" where
  "use_entries r = elements (obj_get ''use'' r)"

definition has_use_chain :: "literal \<Rightarrow> bool" where
  "has_use_chain r = (use_entries r \<noteq> [] \<and> list_all names_loader (use_entries r))"

definition has_loader_or_loaders :: "literal \<Rightarrow> bool" where
  "has_loader_or_loaders r =
     (case obj_get ''loader'' r of
        Some v \<Rightarrow> is_name v
      | None \<Rightarrow> elements (obj_get ''loaders'' r) \<noteq> []
                \<and> list_all is_name (elements (obj_get ''loaders'' r)))"

text \<open>
  The content of a rule without its schema keys: the test pattern, the exclude pattern
  if any, and the chain of loaders, each with its payload if any. In the \<open>rules\<close> schema
  the chain is the \<open>use\<close> array and a payload is the \<open>query\<close> of a chain entry; in the
  \<open>loaders\<close> schema the chain is the single \<open>loader\<close>, whose payload is the \<open>query\<close>
  of the rule, or else the \<open>loaders\<close> array of bare names.
\<close>

type_synonym rule_content =
  "literal option \<times> literal option \<times> (literal option \<times> literal option) list"

definition content_of_rule :: "literal \<Rightarrow> rule_content" where
  "content_of_rule r =
     (obj_get ''test'' r, obj_get ''exclude'' r,
      map (\<lambda>u. (obj_get ''loader'' u, obj_get ''query'' u)) (use_entries r))"

definition content_of_loader :: "literal \<Rightarrow> rule_content" where
  "content_of_loader r =
     (obj_get ''test'' r, obj_get ''exclude'' r,
      (case obj_get ''loader'' r of
         Some n \<Rightarrow> [(Some n, obj_get ''query'' r)]
       | None \<Rightarrow> map (\<lambda>n. (Some n, None)) (elements (obj_get ''loaders'' r))))"

text \<open>
  The older schema lets a loader be named without its \<open>-loader\<close> suffix (\<open>html\<close> for
  the package \<open>html-loader\<close>). \<open>loader_package\<close> completes a name that lacks the suffix.
\<close>

definition ends_with :: "string \<Rightarrow> string \<Rightarrow> bool" where
  "ends_with s suffix =
     (length suffix \<le> length s \<and> drop (length s - length suffix) s = suffix)"

definition loader_package :: "string \<Rightarrow> string" where
  "loader_package n = (if ends_with n ''-loader'' then n else n @ ''-loader'')"

fun package_of :: "literal option \<Rightarrow> literal option" where
  "package_of (Some (LStr n)) = Some (LStr (loader_package n))"
| "package_of v = v"

fun with_packages :: "rule_content \<Rightarrow> rule_content" where
  "with_packages (t, e, chain) = (t, e, map (\<lambda>(n, q). (package_of n, q)) chain)"

text \<open>The \<open>output\<close> object of a configuration, read at one of its keys.\<close>

definition output_of :: "literal \<Rightarrow> string \<Rightarrow> literal option" where
  "output_of config k =
     (case obj_get ''output'' config of None \<Rightarrow> None | Some out \<Rightarrow> obj_get k out)"

text \<open>
  The payload \<open>{ presets: ['es2015'] }\<close>, and the rule contents the interface
  description lists: html, hbs and css files to their loaders, js files outside
  \<open>node_modules\<close> to the babel loader with that payload.
\<close>

definition presets_es2015 :: literal where
  "presets_es2015 = LObj [(''presets'', LArr [LStr ''es2015''])]"

definition common_content :: "rule_content list" where
  "common_content =
     [(Some (LRegExp (backslash # ''.html$'')), None, [(Some (LStr ''html-loader''), None)]),
      (Some (LRegExp (backslash # ''.hbs$'')), None, [(Some (LStr ''handlebars-loader''), None)]),
      (Some (LRegExp (backslash # ''.css$'')), None,
        [(Some (LStr ''style-loader''), None), (Some (LStr ''css-loader''), None)]),
      (Some (LRegExp (backslash # ''.js$'')), Some (LRegExp ''(node_modules)''),
        [(Some (LStr ''babel-loader''), Some presets_es2015)])]"

section \<open>The entry script \<open>index.js\<close>\<close>

text \<open>
  Part 2, \<open>src/index.js\<close>:
  \<^verbatim>\<open>
  import './style.css';
  import hello from './hello.js';

  const input = document.querySelector('.js-add-hello');
  const hellos = document.querySelector('#hellos');

  input.addEventListener('keyup', e => {
    if (e.keyCode === 13) {
      hellos.insertAdjacentHTML('beforeend', hello(e.target.value));
      input.value = '';
    }
  });
  \<close>
  The part of the document the script touches is the state. \<open>querySelector\<close> returns
  \<open>null\<close> when no element matches, so both elements are optional: \<open>input_value\<close> is
  the \<open>value\<close> of the element matching \<open>.js-add-hello\<close>, \<open>hellos\<close> the children of
  the element matching \<open>#hellos\<close>, each child kept as the HTML text it was parsed from,
  in document order. \<open>listeners\<close> are the event listeners the script has registered.
  Calling a method or setting a property on \<open>null\<close> throws a \<open>TypeError\<close>.
\<close>

datatype js_error = TypeError

record event =
  keyCode :: int
  target_value :: jsval

record listener =
  on_target :: string
  on_type :: string

record page =
  input_value :: "string option"
  hellos :: "string list option"
  listeners :: "listener list"

text \<open>
  A run either completes (\<open>Inr\<close>) or throws (\<open>Inl\<close>); a throw keeps the page as the
  statements before it left it.
\<close>

type_synonym outcome = "(js_error \<times> page) + page"

definition page_after :: "outcome \<Rightarrow> page" where
  "page_after r = (case r of Inl (err, p) \<Rightarrow> p | Inr p \<Rightarrow> p)"

text \<open>
  The arrow function passed to \<open>addEventListener\<close>. The imported \<open>hello\<close> is the
  parameter \<open>hello_js\<close>; \<open>target_value\<close> is what \<open>e.target.value\<close> evaluates to.
  \<open>insertAdjacentHTML('beforeend', html)\<close> parses \<open>html\<close> and adds it after the last
  child.
\<close>

definition on_keyup :: "(jsval \<Rightarrow> string) \<Rightarrow> event \<Rightarrow> page \<Rightarrow> outcome" where
  "on_keyup hello_js e p =
     (if keyCode e = 13 then
        (case hellos p of
           None \<Rightarrow> Inl (TypeError, p)
         | Some children \<Rightarrow>
             (let p = p\<lparr>hellos := Some (children @ [hello_js (target_value e)])\<rparr>
              in case input_value p of
                   None \<Rightarrow> Inl (TypeError, p)
                 | Some old \<Rightarrow> Inr (p\<lparr>input_value := Some ''''\<rparr>)))
      else Inr p)"

text \<open>The module body: the two queries, then the registration.\<close>

definition keyup_listener :: listener where
  "keyup_listener = \<lparr>on_target = ''.js-add-hello'', on_type = ''keyup''\<rparr>"

definition startup :: "page \<Rightarrow> outcome" where
  "startup p =
     (case input_value p of
        None \<Rightarrow> Inl (TypeError, p)
      | Some v \<Rightarrow> Inr (p\<lparr>listeners := listeners p @ [keyup_listener]\<rparr>))"

text \<open>
  Native event dispatch: an event of a type fired at a target runs, in registration
  order, every listener registered for that target and type; an exception thrown by a
  listener is reported and the dispatch goes on. The only listener function of the
  script is \<open>on_keyup\<close>.
\<close>

definition dispatch ::
  "(jsval \<Rightarrow> string) \<Rightarrow> string \<Rightarrow> string \<Rightarrow> event \<Rightarrow> page \<Rightarrow> page" where
  "dispatch hello_js target type e p =
     fold (\<lambda>l q. if on_target l = target \<and> on_type l = type
                  then page_after (on_keyup hello_js e q) else q)
          (listeners p) p"

fun run :: "(jsval \<Rightarrow> string) \<Rightarrow> (string \<times> string \<times> event) list \<Rightarrow> page \<Rightarrow> page" where
  "run hello_js [] p = p"
| "run hello_js ((target, type, e) # events) p =
     run hello_js events (dispatch hello_js target type e p)"

text \<open>
  The event the browser builds when a key is released in the input: its target is the
  input, so \<open>e.target.value\<close> is the text typed so far.
\<close>

definition key_released :: "int \<Rightarrow> page \<Rightarrow> event" where
  "key_released code p =
     \<lparr>keyCode = code,
      target_value = (case input_value p of None \<Rightarrow> JUndefined | Some v \<Rightarrow> JStr v)\<rparr>"

text \<open>
  A page as the tutorial's \<open>index.html\<close> gives it, with an input and an empty container.
\<close>

definition index_html :: "string \<Rightarrow> page" where
  "index_html typed = \<lparr>input_value = Some typed, hellos = Some [], listeners = []\<rparr>"

section \<open>Properties of the greeting module\<close>

text \<open>
  C1. Calling \<open>hello\<close> with no argument returns exactly \<open>Hello, World!\<close>, and calling it
  with the argument \<open>Nick\<close> returns exactly \<open>Hello, Nick!\<close>.
\<close>

theorem hello_no_argument_and_nick:
  "hello JUndefined = ''Hello, World!'' \<and> hello (JStr ''Nick'') = ''Hello, Nick!''"
  by (simp add: hello_def)

text \<open>
  C6. The greeting function falls back to \<open>World\<close>: on the missing (undefined) argument
  its result is its result on the explicit argument \<open>World\<close>, for the string-building
  revision and for the default-parameter revision (whatever the template) alike. And
  for every argument it returns a greeting: the string-building revision returns
  \<open>Hello, \<close>, the name after the fallback and \<open>!\<close>; the default-parameter revision
  returns its template applied to the name after the fallback, which for the template
  \<open>hello.hbs\<close> is the markup around \<open>Hello, \<close>, the HTML-escaped name after the
  fallback and \<open>!\<close>, so \<open>Hello, World!\<close> for the missing argument and
  \<open>Hello, Nick!\<close> for \<open>Nick\<close>.
\<close>

theorem hello_default_fallback:
  "hello JUndefined = hello (JStr ''World'')
   \<and> hello_default tpl JUndefined = hello_default tpl (JStr ''World'')
   \<and> (\<forall>name. hello name =
         ''Hello, '' @ to_string (if name = JUndefined then JStr ''World'' else name) @ ''!'')
   \<and> (\<forall>name. hello_default tpl name =
         tpl (if name = JUndefined then JStr ''World'' else name))
   \<and> (\<forall>name. hello_default hello_hbs name =
         hbs_open @ ''Hello, ''
         @ escapeExpression (if name = JUndefined then JStr ''World'' else name)
         @ ''!'' @ hbs_close)
   \<and> hello_default hello_hbs JUndefined = hbs_open @ ''Hello, World!'' @ hbs_close
   \<and> hello_default hello_hbs (JStr ''Nick'') = hbs_open @ ''Hello, Nick!'' @ hbs_close"
  by (simp add: hello_def hello_default_def hello_hbs_def hello_hbs_template_def render_def
      escapeChar_def)

text \<open>
  C8. For every defined argument the greeting function returns \<open>Hello, \<close>, the argument
  and \<open>!\<close>; the fallback applies to \<open>undefined\<close> only, so the empty string gives
  \<open>Hello, !\<close> and not \<open>Hello, World!\<close>.
\<close>

theorem hello_defined_argument:
  "(name \<noteq> JUndefined \<longrightarrow> hello name = ''Hello, '' @ to_string name @ ''!'')
   \<and> hello (JStr '''') = ''Hello, !''
   \<and> hello (JStr '''') \<noteq> ''Hello, World!''"
  by (simp add: hello_def)

theorem hello_defined_argument_witness:
  "JStr ''Ada'' \<noteq> JUndefined \<and> hello (JStr ''Ada'') = ''Hello, Ada!''"
  using hello_defined_argument [of "JStr ''Ada''"] by simp

section \<open>Properties of the configuration file\<close>

subsection \<open>Facts about \<open>path.join\<close>\<close>

lemma split_slash_not_Nil: "split_slash s \<noteq> []"
  by (induction s) (auto split: list.splits)

lemma split_slash_at_slash:
  "split_slash (a @ CHR ''/'' # b) = split_slash a @ split_slash b"
  by (induction a) (auto split: list.splits simp: split_slash_not_Nil)

lemma split_slash_segment: "CHR ''/'' \<notin> set s \<Longrightarrow> split_slash s = [s]"
  by (induction s) auto

lemma split_slash_join_slash:
  "ss \<noteq> [] \<Longrightarrow> \<forall>s\<in>set ss. CHR ''/'' \<notin> set s \<Longrightarrow> split_slash (join_slash ss) = ss"
proof (induction ss rule: join_slash.induct)
  case 1
  then show ?case by simp
next
  case (2 s)
  then show ?case by (simp add: split_slash_segment)
next
  case (3 s t ts)
  then show ?case by (simp add: split_slash_at_slash split_slash_segment)
qed

lemma normalizeString_proper:
  "\<forall>s\<in>set ss. proper_segment s \<Longrightarrow> normalizeString a res ss = res @ ss"
  by (induction ss arbitrary: res) (auto simp: proper_segment_def)

lemma normalizeString_append:
  "normalizeString a res (xs @ ys) = normalizeString a (normalizeString a res xs) ys"
  by (induction xs arbitrary: res) auto

lemma join_slash_append:
  "xs \<noteq> [] \<Longrightarrow> ys \<noteq> [] \<Longrightarrow> join_slash (xs @ ys) = join_slash xs @ ''/'' @ join_slash ys"
  by (induction xs rule: join_slash.induct) (auto, (cases ys; simp))

lemma join_slash_snoc_last:
  "s \<noteq> [] \<Longrightarrow> join_slash (xs @ [s]) \<noteq> [] \<and> last (join_slash (xs @ [s])) = last s"
  by (induction xs rule: join_slash.induct) auto

text \<open>
  Joining an absolute directory with a relative path of proper segments: the directory
  is normalised and the segments follow it.
\<close>

lemma path_join_absolute:
  assumes abs: "isAbsolute d"
    and rel: "rel \<noteq> []" "\<forall>s\<in>set rel. proper_segment s"
  shows "path_join [d, join_slash rel] =
           ''/'' @ join_slash (normalizeString False [] (split_slash d) @ rel)"
proof -
  from abs obtain r where d: "d = CHR ''/'' # r"
    by (auto simp: isAbsolute_def split: list.splits)
  from rel obtain x xs where relx: "rel = xs @ [x]"
    by (metis rev_exhaust)
  with rel have x: "x \<noteq> []" "CHR ''/'' \<notin> set x"
    by (auto simp: proper_segment_def)
  have jr: "join_slash rel \<noteq> []" "last (join_slash rel) = last x"
    using join_slash_snoc_last [OF x(1), of xs] relx by auto
  have lastx: "last x \<noteq> CHR ''/''"
    using x by (metis last_in_set)
  have free: "\<forall>s\<in>set rel. CHR ''/'' \<notin> set s"
    using rel by (auto simp: proper_segment_def)
  let ?joined = "d @ ''/'' @ join_slash rel"
  have parts: "path_join [d, join_slash rel] = normalize ?joined"
    using d jr by (simp add: path_join_def)
  have split: "split_slash ?joined = split_slash d @ rel"
    using split_slash_at_slash [of d "join_slash rel"] split_slash_join_slash [OF rel(1) free]
    by simp
  have norm: "normalizeString False [] (split_slash ?joined) =
                normalizeString False [] (split_slash d) @ rel"
    unfolding split normalizeString_append
    by (rule normalizeString_proper) (rule rel(2))
  have ne: "join_slash (normalizeString False [] (split_slash d) @ rel) \<noteq> []"
    using join_slash_snoc_last [OF x(1), of "normalizeString False [] (split_slash d) @ xs"] relx
    by simp
  have absj: "isAbsolute ?joined"
    using d by (simp add: isAbsolute_def)
  have lastj: "last ?joined \<noteq> CHR ''/''"
    using jr lastx by simp
  show ?thesis
    unfolding parts normalize_def using absj lastj norm ne
    by (simp add: Let_def)
qed

text \<open>On a directory name as Node gives it, the join only appends.\<close>

lemma path_join_dirname_of:
  assumes segs: "\<forall>s\<in>set segs. proper_segment s"
    and rel: "rel \<noteq> []" "\<forall>s\<in>set rel. proper_segment s"
  shows "path_join [dirname_of segs, join_slash rel] = dirname_of (segs @ rel)"
proof -
  have abs: "isAbsolute (dirname_of segs)"
    by (simp add: dirname_of_def isAbsolute_def)
  have free: "\<forall>s\<in>set segs. CHR ''/'' \<notin> set s"
    using segs by (auto simp: proper_segment_def)
  have "split_slash (dirname_of segs) = [] # (if segs = [] then [[]] else segs)"
    using split_slash_join_slash [OF _ free] by (simp add: dirname_of_def)
  then have "normalizeString False [] (split_slash (dirname_of segs)) = segs"
    using normalizeString_proper [OF segs, of False "[]"] by simp
  then show ?thesis
    using path_join_absolute [OF abs rel] by (simp add: dirname_of_def)
qed

lemma path_join_ends:
  assumes "isAbsolute d" "rel \<noteq> []" "\<forall>s\<in>set rel. proper_segment s"
  shows "isAbsolute (path_join [d, join_slash rel])
         \<and> (\<exists>dir. path_join [d, join_slash rel] = dir @ ''/'' @ join_slash rel)"
proof -
  let ?n = "normalizeString False [] (split_slash d)"
  have eq: "path_join [d, join_slash rel] = ''/'' @ join_slash (?n @ rel)"
    using assms by (rule path_join_absolute)
  have "\<exists>dir. ''/'' @ join_slash (?n @ rel) = dir @ ''/'' @ join_slash rel"
  proof (cases "?n = []")
    case True
    then show ?thesis by simp
  next
    case False
    then have "''/'' @ join_slash (?n @ rel) = (''/'' @ join_slash ?n) @ ''/'' @ join_slash rel"
      using assms(2) by (simp add: join_slash_append)
    then show ?thesis by blast
  qed
  then show ?thesis
    unfolding eq by (simp add: isAbsolute_def)
qed

subsection \<open>Entry and output\<close>

text \<open>
  C5. In the configuration object (either revision), for an absolute configuration
  directory: \<open>entry\<close> is a single string, the join of the directory with
  \<open>src/index.js\<close>, which is an absolute path ending in \<open>/src/index.js\<close>;
  \<open>output.path\<close> is the join of the directory with \<open>dist\<close>, an absolute path ending
  in \<open>/dist\<close>; and \<open>output.filename\<close> is \<open>index.bundle.js\<close>.
\<close>

theorem config_entry_and_output:
  assumes "isAbsolute dirname"
    and "config = config_rules dirname \<or> config = config_loaders dirname"
  shows "obj_get ''entry'' config = Some (LStr (path_join [dirname, ''src/index.js'']))
       \<and> isAbsolute (path_join [dirname, ''src/index.js''])
       \<and> (\<exists>dir. path_join [dirname, ''src/index.js''] = dir @ ''/src/index.js'')
       \<and> output_of config ''path'' = Some (LStr (path_join [dirname, ''dist'']))
       \<and> isAbsolute (path_join [dirname, ''dist''])
       \<and> (\<exists>dir. path_join [dirname, ''dist''] = dir @ ''/dist'')
       \<and> output_of config ''filename'' = Some (LStr ''index.bundle.js'')"
proof -
  have entry: "obj_get ''entry'' config = Some (LStr (path_join [dirname, ''src/index.js'']))"
    using assms(2) by (auto simp: config_rules_def config_loaders_def)
  have out: "output_of config ''path'' = Some (LStr (path_join [dirname, ''dist'']))"
            "output_of config ''filename'' = Some (LStr ''index.bundle.js'')"
    using assms(2) by (auto simp: config_rules_def config_loaders_def output_of_def)
  have e: "isAbsolute (path_join [dirname, ''src/index.js''])
           \<and> (\<exists>dir. path_join [dirname, ''src/index.js''] = dir @ ''/src/index.js'')"
    using path_join_ends [OF assms(1), of "[''src'', ''index.js'']"]
    by (simp add: proper_segment_def)
  have d: "isAbsolute (path_join [dirname, ''dist''])
           \<and> (\<exists>dir. path_join [dirname, ''dist''] = dir @ ''/dist'')"
    using path_join_ends [OF assms(1), of "[''dist'']"]
    by (simp add: proper_segment_def)
  show ?thesis using entry out e d by simp
qed

theorem config_entry_and_output_witness:
  "isAbsolute ''/home/nick/app''
   \<and> obj_get ''entry'' (config_loaders ''/home/nick/app'') =
       Some (LStr ''/home/nick/app/src/index.js'')
   \<and> output_of (config_loaders ''/home/nick/app'') ''path'' = Some (LStr ''/home/nick/app/dist'')
   \<and> output_of (config_loaders ''/home/nick/app'') ''filename'' = Some (LStr ''index.bundle.js'')"
proof -
  have a: "isAbsolute ''/home/nick/app''"
    by (simp add: isAbsolute_def)
  have e: "path_join [''/home/nick/app'', ''src/index.js''] = ''/home/nick/app/src/index.js''"
    by (simp add: path_join_def normalize_def isAbsolute_def)
  have d: "path_join [''/home/nick/app'', ''dist''] = ''/home/nick/app/dist''"
    by (simp add: path_join_def normalize_def isAbsolute_def)
  show ?thesis
    using a config_entry_and_output [OF a, of "config_loaders ''/home/nick/app''"] e d by simp
qed

subsection \<open>The rule lists\<close>

lemma module_rules_config_rules:
  "module_rules (config_rules d) =
     [LObj [(''test'', LRegExp (backslash # ''.html$'')),
            (''use'', LArr [LObj [(''loader'', LStr ''html-loader'')]])],
      LObj [(''test'', LRegExp (backslash # ''.hbs$'')),
            (''use'', LArr [LObj [(''loader'', LStr ''handlebars-loader'')]])],
      LObj [(''test'', LRegExp (backslash # ''.css$'')),
            (''use'', LArr [LObj [(''loader'', LStr ''style-loader'')],
                            LObj [(''loader'', LStr ''css-loader'')]])],
      LObj [(''test'', LRegExp (backslash # ''.js$'')),
            (''exclude'', LRegExp ''(node_modules)''),
            (''use'', LArr [LObj [(''loader'', LStr ''babel-loader''),
                                  (''query'', presets_es2015)]])]]"
  by (simp add: module_rules_def config_rules_def presets_es2015_def)

lemma module_loaders_config_loaders:
  "module_loaders (config_loaders d) =
     [LObj [(''test'', LRegExp (backslash # ''.html$'')), (''loader'', LStr ''html'')],
      LObj [(''test'', LRegExp (backslash # ''.hbs$'')), (''loader'', LStr ''handlebars'')],
      LObj [(''test'', LRegExp (backslash # ''.css$'')),
            (''loaders'', LArr [LStr ''style'', LStr ''css''])],
      LObj [(''test'', LRegExp (backslash # ''.js$'')),
            (''exclude'', LRegExp ''(node_modules)''),
            (''loader'', LStr ''babel-loader''),
            (''query'', presets_es2015)]]"
  by (simp add: module_loaders_def config_loaders_def presets_es2015_def)

text \<open>
  C4. In both revisions the rule list is an ordered list of four records, each with a
  regular expression under \<open>test\<close> and a loader chain (a non-empty \<open>use\<close> array of
  named loaders, respectively a \<open>loader\<close> name or a non-empty \<open>loaders\<close> array of
  names); the only record carrying \<open>exclude\<close> is the JavaScript rule, and the only
  \<open>query\<close> payload is the one of the babel loader, \<open>{ presets: ['es2015'] }\<close>.
\<close>

theorem rule_records_shape:
  "list_all has_test (module_rules (config_rules d))
   \<and> list_all has_use_chain (module_rules (config_rules d))
   \<and> list_all has_test (module_loaders (config_loaders d))
   \<and> list_all has_loader_or_loaders (module_loaders (config_loaders d))
   \<and> map (obj_get ''test'') (module_rules (config_rules d)) =
       [Some (LRegExp (backslash # ''.html$'')), Some (LRegExp (backslash # ''.hbs$'')),
        Some (LRegExp (backslash # ''.css$'')), Some (LRegExp (backslash # ''.js$''))]
   \<and> map (obj_get ''test'') (module_loaders (config_loaders d)) =
       map (obj_get ''test'') (module_rules (config_rules d))
   \<and> map (obj_get ''test'') (filter (carries ''exclude'') (module_rules (config_rules d))) =
       [Some (LRegExp (backslash # ''.js$''))]
   \<and> map (obj_get ''test'') (filter (carries ''exclude'') (module_loaders (config_loaders d))) =
       [Some (LRegExp (backslash # ''.js$''))]
   \<and> filter (carries ''query'') (module_rules (config_rules d)) = []
   \<and> filter (carries ''query'') (concat (map use_entries (module_rules (config_rules d)))) =
       [LObj [(''loader'', LStr ''babel-loader''), (''query'', presets_es2015)]]
   \<and> map (\<lambda>r. (obj_get ''loader'' r, obj_get ''query'' r))
         (filter (carries ''query'') (module_loaders (config_loaders d))) =
       [(Some (LStr ''babel-loader''), Some presets_es2015)]"
  unfolding module_rules_config_rules module_loaders_config_loaders
  by (simp add: has_test_def has_use_chain_def has_loader_or_loaders_def use_entries_def
      names_loader_def is_name_def carries_def)

text \<open>
  C2, as stated, fails: the two revisions do not differ in their schema keys only. With
  the keys set aside, the first rule of the \<open>rules\<close> revision names the loader
  \<open>html-loader\<close> and the first rule of the \<open>loaders\<close> revision names \<open>html\<close>, so
  the two lists of rule contents are different.
\<close>

theorem revisions_differ_in_loader_names:
  "snd (snd (content_of_rule (hd (module_rules (config_rules ''/app''))))) =
     [(Some (LStr ''html-loader''), None)]
   \<and> snd (snd (content_of_loader (hd (module_loaders (config_loaders ''/app''))))) =
     [(Some (LStr ''html''), None)]
   \<and> map content_of_rule (module_rules (config_rules ''/app'')) \<noteq>
     map content_of_loader (module_loaders (config_loaders ''/app''))"
  unfolding module_rules_config_rules module_loaders_config_loaders
  by (simp add: content_of_rule_def content_of_loader_def use_entries_def)

text \<open>
  C2, amended. The two revisions define the same \<open>entry\<close> and the same \<open>output\<close>
  (path and file name), and the same ordered rule contents (html to the html loader,
  hbs to the handlebars loader, css to the style then the css loader, js outside
  \<open>node_modules\<close> to the babel loader with preset \<open>es2015\<close>), once the loader names of
  the older revision are completed with the \<open>-loader\<close> suffix it leaves out; they
  differ in the schema keys and in those names.
\<close>

theorem revisions_same_content:
  "obj_get ''entry'' (config_rules d) = obj_get ''entry'' (config_loaders d)
   \<and> obj_get ''entry'' (config_rules d) = Some (LStr (path_join [d, ''src/index.js'']))
   \<and> obj_get ''output'' (config_rules d) = obj_get ''output'' (config_loaders d)
   \<and> obj_get ''output'' (config_rules d) =
       Some (LObj [(''path'', LStr (path_join [d, ''dist''])),
                   (''filename'', LStr ''index.bundle.js'')])
   \<and> map content_of_rule (module_rules (config_rules d)) = common_content
   \<and> map (with_packages \<circ> content_of_loader) (module_loaders (config_loaders d)) =
       common_content"
  unfolding module_rules_config_rules module_loaders_config_loaders
  by (simp add: config_rules_def config_loaders_def content_of_rule_def content_of_loader_def
      use_entries_def common_content_def loader_package_def ends_with_def)

section \<open>Properties of the entry script\<close>

lemma listeners_on_keyup: "listeners (page_after (on_keyup hello_js e p)) = listeners p"
  by (simp add: on_keyup_def page_after_def Let_def split: option.splits)

lemma listeners_fold_on_keyup:
  "listeners (fold (\<lambda>l q. if sel l then page_after (on_keyup hello_js e q) else q) ls p) =
     listeners p"
  by (induction ls arbitrary: p) (simp_all add: listeners_on_keyup)

lemma listeners_dispatch: "listeners (dispatch hello_js target type e p) = listeners p"
  unfolding dispatch_def by (rule listeners_fold_on_keyup)

lemma listeners_run: "listeners (run hello_js events p) = listeners p"
  by (induction hello_js events p rule: run.induct) (simp_all add: listeners_dispatch)

lemma on_keyup_other_key: "keyCode e \<noteq> 13 \<Longrightarrow> on_keyup hello_js e p = Inr p"
  by (simp add: on_keyup_def)

lemma on_keyup_enter:
  assumes "keyCode e = 13" "hellos p = Some children" "input_value p = Some typed"
  shows "on_keyup hello_js e p =
           Inr (p\<lparr>hellos := Some (children @ [hello_js (target_value e)]),
                  input_value := Some ''''\<rparr>)"
  using assms by (simp add: on_keyup_def)

text \<open>
  C9. For every keyup event whose key code is not 13 the handler completes and leaves
  the page as it was: the value of the input and the whole content of the \<open>#hellos\<close>
  container are the same after the handler as before.
\<close>

theorem keyup_other_key_no_effect:
  assumes "keyCode e \<noteq> 13"
  shows "on_keyup hello_js e p = Inr p
       \<and> input_value (page_after (on_keyup hello_js e p)) = input_value p
       \<and> hellos (page_after (on_keyup hello_js e p)) = hellos p"
  using assms by (simp add: on_keyup_other_key page_after_def)

theorem keyup_other_key_no_effect_witness:
  "keyCode \<lparr>keyCode = 65, target_value = JStr ''Nick''\<rparr> \<noteq> 13
   \<and> on_keyup hello \<lparr>keyCode = 65, target_value = JStr ''Nick''\<rparr>
        \<lparr>input_value = Some ''Nick'', hellos = Some [''Hello, Ada!''],
         listeners = [keyup_listener]\<rparr>
      = Inr \<lparr>input_value = Some ''Nick'', hellos = Some [''Hello, Ada!''],
             listeners = [keyup_listener]\<rparr>"
  using keyup_other_key_no_effect
    [of "\<lparr>keyCode = 65, target_value = JStr ''Nick''\<rparr>" hello
        "\<lparr>input_value = Some ''Nick'', hellos = Some [''Hello, Ada!''],
          listeners = [keyup_listener]\<rparr>"]
  by simp

text \<open>
  C10. For every keyup event whose key code is 13, on a page that has the input and the
  \<open>#hellos\<close> container, the handler adds \<open>hello(e.target.value)\<close> after the last child
  of the container, keeping the earlier children in their order, and then sets the value
  of the input to the empty string.
\<close>

theorem keyup_enter_appends_and_resets:
  assumes "keyCode e = 13" and "hellos p = Some children" and "input_value p = Some typed"
  shows "on_keyup hello_js e p =
           Inr (p\<lparr>hellos := Some (children @ [hello_js (target_value e)]),
                  input_value := Some ''''\<rparr>)"
  using assms by (rule on_keyup_enter)

theorem keyup_enter_appends_and_resets_witness:
  "keyCode \<lparr>keyCode = 13, target_value = JStr ''Nick''\<rparr> = 13
   \<and> on_keyup hello \<lparr>keyCode = 13, target_value = JStr ''Nick''\<rparr>
        \<lparr>input_value = Some ''Nick'', hellos = Some [''Hello, Ada!''],
         listeners = [keyup_listener]\<rparr>
      = Inr \<lparr>input_value = Some '''', hellos = Some [''Hello, Ada!'', ''Hello, Nick!''],
             listeners = [keyup_listener]\<rparr>"
  using keyup_enter_appends_and_resets
    [of "\<lparr>keyCode = 13, target_value = JStr ''Nick''\<rparr>"
        "\<lparr>input_value = Some ''Nick'', hellos = Some [''Hello, Ada!''],
          listeners = [keyup_listener]\<rparr>"
        "[''Hello, Ada!'']" "''Nick''" hello]
  by (simp add: hello_def)

text \<open>
  C7. On a page that has the \<open>.js-add-hello\<close> element, the startup of the entry script
  completes and registers exactly one event listener, and no sequence of events
  dispatched afterwards registers another: the list of listeners stays as the startup
  left it.
\<close>

theorem one_listener_registered_at_startup:
  assumes "input_value p = Some typed"
  shows "\<exists>p'. startup p = Inr p'
           \<and> listeners p' = listeners p @ [keyup_listener]
           \<and> (\<forall>events. listeners (run hello_js events p') = listeners p')"
  using assms by (simp add: startup_def listeners_run)

theorem one_listener_registered_at_startup_witness:
  "input_value (index_html ''Nick'') = Some ''Nick''
   \<and> (\<exists>p'. startup (index_html ''Nick'') = Inr p'
         \<and> listeners p' = [keyup_listener]
         \<and> (\<forall>events. listeners (run hello events p') = [keyup_listener]))"
  using one_listener_registered_at_startup [of "index_html ''Nick''" "''Nick''" hello]
  by (auto simp: index_html_def)

text \<open>
  C3, as stated, fails: the entry script registers no click handler. On the tutorial's
  page the only listener after startup is for \<open>keyup\<close>, and a click dispatched at the
  \<open>.js-add-hello\<close> element changes nothing; the container stays empty.
\<close>

theorem click_is_not_wired:
  "map on_type (listeners (page_after (startup (index_html ''Nick'')))) = [''keyup'']
   \<and> ''click'' \<notin> set (map on_type (listeners (page_after (startup (index_html ''Nick'')))))
   \<and> dispatch hello ''.js-add-hello'' ''click'' \<lparr>keyCode = 13, target_value = JStr ''Nick''\<rparr>
        (page_after (startup (index_html ''Nick''))) = page_after (startup (index_html ''Nick''))
   \<and> hellos (dispatch hello ''.js-add-hello'' ''click''
               \<lparr>keyCode = 13, target_value = JStr ''Nick''\<rparr>
               (page_after (startup (index_html ''Nick'')))) = Some []"
  by (simp add: startup_def index_html_def page_after_def keyup_listener_def dispatch_def)

text \<open>
  C3, amended. The entry script wires the Enter key in the text input to DOM insertion:
  on a page with the \<open>.js-add-hello\<close> input and the \<open>#hellos\<close> container it registers
  one handler, for \<open>keyup\<close> on the input, and when a key with code 13 is released there
  that handler inserts the greeting for the typed text as HTML at the end of the
  container (and empties the input).
\<close>

theorem keyup_is_wired_to_insertion:
  assumes "input_value p = Some typed" and "hellos p = Some children" and "listeners p = []"
  shows "\<exists>p'. startup p = Inr p'
           \<and> listeners p' = [\<lparr>on_target = ''.js-add-hello'', on_type = ''keyup''\<rparr>]
           \<and> dispatch hello_js ''.js-add-hello'' ''keyup'' (key_released 13 p') p' =
               p'\<lparr>hellos := Some (children @ [hello_js (JStr typed)]),
                  input_value := Some ''''\<rparr>"
  using assms
  by (simp add: startup_def keyup_listener_def dispatch_def key_released_def on_keyup_def
      page_after_def)

theorem keyup_is_wired_to_insertion_witness:
  "input_value (index_html ''Nick'') = Some ''Nick''
   \<and> hellos (index_html ''Nick'') = Some []
   \<and> listeners (index_html ''Nick'') = []
   \<and> (\<exists>p'. startup (index_html ''Nick'') = Inr p'
         \<and> dispatch hello ''.js-add-hello'' ''keyup'' (key_released 13 p') p' =
             \<lparr>input_value = Some '''', hellos = Some [''Hello, Nick!''],
              listeners = [\<lparr>on_target = ''.js-add-hello'', on_type = ''keyup''\<rparr>]\<rparr>)"
  using keyup_is_wired_to_insertion [of "index_html ''Nick''" "''Nick''" "[]" hello]
  by (auto simp: index_html_def hello_def)


end
